theory Spec2Isabelle
  imports Complex_Main
begin

section \<open>Tiled encoding and decoding of the video autoencoder wrapper\<close>

text \<open>
  The development embeds the tiling and blending controller of
  \<^verbatim>\<open>src/ltx_video/models/autoencoders/vae.py\<close> (class \<^verbatim>\<open>AutoencoderKLWrapper\<close>).
  The encoder and decoder networks, the quantisation convolutions and the batch-norm
  module are opaque to the controller; they are fields of the model record, total
  functions from tensors to tensors that return fresh tensors.

  Floating-point numbers are modelled as reals. The controller multiplies a tile size by
  the overlap factor and truncates, and it interpolates linearly between two slices. The
  products the theorems below depend on (a tile size times 0, 0.25, 0.75 or 1) are exact
  in binary floating point for every tile size below \<open>2 ^ 51\<close>, so the geometry they
  derive is the one the floats give.
\<close>

subsection \<open>Errors\<close>

text \<open>The exceptions the class raises itself or provokes in Python and torch.\<close>

datatype error =
    AssertionError
  | NotImplementedError
  | IndexError
  | ValueError
  | RuntimeError

definition bindE :: "error + 'a \<Rightarrow> ('a \<Rightarrow> error + 'b) \<Rightarrow> error + 'b" where
  "bindE m f = (case m of Inl e \<Rightarrow> Inl e | Inr x \<Rightarrow> f x)"

text \<open>Running a fallible function over a list, left to right, stopping at the first error.\<close>

fun mapE :: "('a \<Rightarrow> error + 'b) \<Rightarrow> 'a list \<Rightarrow> error + 'b list" where
  "mapE f [] = Inr []"
| "mapE f (x # xs) = bindE (f x) (\<lambda>y. bindE (mapE f xs) (\<lambda>ys. Inr (y # ys)))"

subsection \<open>Five-dimensional tensors\<close>

text \<open>
  A volume has the axes (batch, channel, time, height, width), dimensions 0 to 4 of the
  torch tensor. A tensor is its shape and its elements by index; elements at indices
  outside the shape carry no meaning.
\<close>

type_synonym idx = "nat \<times> nat \<times> nat \<times> nat \<times> nat"

datatype axis = AxB | AxC | AxT | AxH | AxW

record tensor =
  shape :: idx
  elems :: "idx \<Rightarrow> real"

fun coord :: "axis \<Rightarrow> idx \<Rightarrow> nat" where
  "coord AxB (n, c, t, h, w) = n"
| "coord AxC (n, c, t, h, w) = c"
| "coord AxT (n, c, t, h, w) = t"
| "coord AxH (n, c, t, h, w) = h"
| "coord AxW (n, c, t, h, w) = w"

fun set_coord :: "axis \<Rightarrow> nat \<Rightarrow> idx \<Rightarrow> idx" where
  "set_coord AxB v (n, c, t, h, w) = (v, c, t, h, w)"
| "set_coord AxC v (n, c, t, h, w) = (n, v, t, h, w)"
| "set_coord AxT v (n, c, t, h, w) = (n, c, v, h, w)"
| "set_coord AxH v (n, c, t, h, w) = (n, c, t, v, w)"
| "set_coord AxW v (n, c, t, h, w) = (n, c, t, h, v)"

definition extent :: "axis \<Rightarrow> tensor \<Rightarrow> nat" where
  "extent ax t = coord ax (shape t)"

text \<open>
  Python's \<^verbatim>\<open>int(x)\<close> on a float truncates towards zero.
\<close>

definition py_int :: "real \<Rightarrow> int" where
  "py_int r = (if r < 0 then \<lceil>r\<rceil> else \<lfloor>r\<rfloor>)"

text \<open>
  \<^verbatim>\<open>range(0, n, step)\<close>: a zero step raises ValueError, a negative step gives the empty
  range (the stop \<open>n\<close> is an extent, so never negative).
\<close>

definition py_range :: "nat \<Rightarrow> int \<Rightarrow> error + nat list" where
  "py_range n step =
     (if step = 0 then Inl ValueError
      else if step < 0 then Inr []
      else Inr (map (\<lambda>k. k * nat step) [0 ..< (n + nat step - 1) div nat step]))"

text \<open>
  A slice \<^verbatim>\<open>lo:hi\<close> with step 1 along one axis, all other axes taken whole. A negative bound
  counts from the end and every bound is clipped to the extent, as Python does;
  \<open>None\<close> as upper bound is the omitted bound.
\<close>

definition slice_bound :: "nat \<Rightarrow> int \<Rightarrow> nat" where
  "slice_bound n k = (if k < 0 then nat (max (k + int n) 0) else min (nat k) n)"

definition slice_ax :: "axis \<Rightarrow> int \<Rightarrow> int option \<Rightarrow> tensor \<Rightarrow> tensor" where
  "slice_ax ax lo hi t =
     (let n = extent ax t;
          start = slice_bound n lo;
          stop = (case hi of None \<Rightarrow> n | Some h \<Rightarrow> slice_bound n h)
      in \<lparr>shape = set_coord ax (stop - start) (shape t),
          elems = (\<lambda>i. elems t (set_coord ax (coord ax i + start) i))\<rparr>)"

text \<open>
  \<^verbatim>\<open>torch.cat(ts, dim)\<close>: the list must not be empty and the tensors must agree on
  every extent but the one of \<open>dim\<close>.
\<close>

fun cat_elems :: "axis \<Rightarrow> tensor list \<Rightarrow> idx \<Rightarrow> real" where
  "cat_elems ax [] i = 0"
| "cat_elems ax (t # ts) i =
     (if coord ax i < extent ax t then elems t i
      else cat_elems ax ts (set_coord ax (coord ax i - extent ax t) i))"

definition cat :: "axis \<Rightarrow> tensor list \<Rightarrow> error + tensor" where
  "cat ax ts =
     (case ts of
        [] \<Rightarrow> Inl RuntimeError
      | t # rest \<Rightarrow>
          if list_all (\<lambda>u. set_coord ax 0 (shape u) = set_coord ax 0 (shape t)) rest
          then Inr \<lparr>shape = set_coord ax (sum_list (map (extent ax) ts)) (shape t),
                    elems = cat_elems ax ts\<rparr>
          else Inl RuntimeError)"

subsection \<open>The blend operators\<close>

text \<open>
  \<^verbatim>\<open>blend_z\<close>, \<open>blend_v\<close> and \<open>blend_h\<close> are one body on the axes 2, 3 and 4:
  \<^verbatim>\<open>
  blend_extent = min(a.shape[ax], b.shape[ax], blend_extent)
  for z in range(blend_extent):
      b[.., z, ..] = a[.., -blend_extent + z, ..] * (1 - z / blend_extent)
                     + b[.., z, ..] * (z / blend_extent)
  return b
  \<close>
  The index \<open>-blend_extent + z\<close> is negative inside the loop, so it counts from the end of
  \<open>a\<close>. Off the blended axis the slice of \<open>a\<close> is broadcast against the slice of \<open>b\<close> and
  the sum is written into \<open>b\<close>: torch accepts that when each extent of \<open>a\<close> equals the
  one of \<open>b\<close> or is 1, and raises otherwise. The loop writes \<open>b\<close> in place; \<open>a\<close> is a
  different tensor at every call site.
\<close>

definition bcast_ok :: "axis \<Rightarrow> idx \<Rightarrow> idx \<Rightarrow> bool" where
  "bcast_ok ax sa sb =
     list_all (\<lambda>d. d = ax \<or> coord d sa = coord d sb \<or> coord d sa = 1)
       [AxB, AxC, AxT, AxH, AxW]"

definition bcast_coord :: "nat \<Rightarrow> nat \<Rightarrow> nat" where
  "bcast_coord n k = (if n = 1 then 0 else k)"

fun bcast_idx :: "axis \<Rightarrow> idx \<Rightarrow> idx \<Rightarrow> idx" where
  "bcast_idx ax (n', c', t', h', w') (n, c, t, h, w) =
     set_coord ax (coord ax (n, c, t, h, w))
       (bcast_coord n' n, bcast_coord c' c, bcast_coord t' t, bcast_coord h' h, bcast_coord w' w)"

definition blend_step :: "axis \<Rightarrow> tensor \<Rightarrow> int \<Rightarrow> nat \<Rightarrow> tensor \<Rightarrow> tensor" where
  "blend_step ax a m z b =
     b\<lparr>elems := (\<lambda>i. if coord ax i = z
          then elems a (bcast_idx ax (shape a)
                          (set_coord ax (nat (int (extent ax a) + (- m + int z))) i))
                 * (1 - real z / real_of_int m)
               + elems b i * (real z / real_of_int m)
          else elems b i)\<rparr>"

definition blend_on :: "axis \<Rightarrow> tensor \<Rightarrow> tensor \<Rightarrow> int \<Rightarrow> error + tensor" where
  "blend_on ax a b blend_extent =
     (let m = min (int (extent ax a)) (min (int (extent ax b)) blend_extent)
      in if m \<le> 0 then Inr b
         else if \<not> bcast_ok ax (shape a) (shape b) then Inl RuntimeError
         else Inr (fold (blend_step ax a m) [0 ..< nat m] b))"

definition blend_z :: "tensor \<Rightarrow> tensor \<Rightarrow> int \<Rightarrow> error + tensor" where
  "blend_z a b blend_extent = blend_on AxT a b blend_extent"

definition blend_v :: "tensor \<Rightarrow> tensor \<Rightarrow> int \<Rightarrow> error + tensor" where
  "blend_v a b blend_extent = blend_on AxH a b blend_extent"

definition blend_h :: "tensor \<Rightarrow> tensor \<Rightarrow> int \<Rightarrow> error + tensor" where
  "blend_h a b blend_extent = blend_on AxW a b blend_extent"

subsection \<open>The model object\<close>

text \<open>
  The networks the wrapper holds are opaque: \<open>encoder\<close>, \<open>decoder\<close>, \<open>quant_conv\<close> and
  \<open>post_quant_conv\<close> are the modules of the same names; \<open>bn3d_forward\<close> is the call
  \<^verbatim>\<open>self.latent_norm_out(..)\<close> of a \<^verbatim>\<open>BatchNorm3d\<close> module and \<open>bn3d_unnormalize\<close> is
  its inverse \<^verbatim>\<open>z * sqrt(running_var + eps) + running_mean\<close>; \<open>decoder_has_timestep\<close> is
  \<^verbatim>\<open>"timestep" in self.decoder_params\<close>. The decoder receives the target shape and,
  when it is passed one, the timestep.
\<close>

datatype timestep_arg = No_timestep | Timestep "tensor option"

record networks =
  encoder :: "tensor \<Rightarrow> tensor"
  decoder :: "tensor \<Rightarrow> int list \<Rightarrow> timestep_arg \<Rightarrow> tensor"
  quant_conv :: "tensor \<Rightarrow> tensor"
  post_quant_conv :: "tensor \<Rightarrow> tensor"
  bn3d_forward :: "tensor \<Rightarrow> tensor"
  bn3d_unnormalize :: "tensor \<Rightarrow> tensor"
  decoder_has_timestep :: bool

datatype norm_module = Identity | BatchNorm2d | BatchNorm3d

record vae =
  nets :: networks
  normalize_latent_channels_flag :: bool
  latent_norm_out :: norm_module
  use_z_tiling :: bool
  use_hw_tiling :: bool
  dims :: int
  z_sample_size :: int
  tile_sample_min_size :: int
  tile_latent_min_size :: int
  tile_overlap_factor :: real

definition set_tiling_params :: "vae \<Rightarrow> int \<Rightarrow> real \<Rightarrow> vae" where
  "set_tiling_params s sample_size overlap_factor =
     s\<lparr>tile_sample_min_size := sample_size,
       tile_latent_min_size := py_int (real_of_int sample_size / 32),
       tile_overlap_factor := overlap_factor\<rparr>"

text \<open>\<^verbatim>\<open>__init__\<close>: the fields it sets, then \<^verbatim>\<open>set_tiling_params(sample_size, 0.25)\<close>.\<close>

definition init_vae :: "networks \<Rightarrow> int \<Rightarrow> int \<Rightarrow> bool \<Rightarrow> vae" where
  "init_vae ns dims_arg sample_size normalize_arg =
     set_tiling_params
       \<lparr>nets = ns,
        normalize_latent_channels_flag = normalize_arg,
        latent_norm_out =
          (if normalize_arg then (if dims_arg = 2 then BatchNorm2d else BatchNorm3d)
           else Identity),
        use_z_tiling = False,
        use_hw_tiling = False,
        dims = dims_arg,
        z_sample_size = 1,
        tile_sample_min_size = 0,
        tile_latent_min_size = 0,
        tile_overlap_factor = 0\<rparr>
       sample_size 0.25"

text \<open>
  \<^verbatim>\<open>enable_z_tiling\<close> writes both fields and then asserts; the state it returns is the
  object after the call, whether the assertion held or not.
\<close>

definition enable_z_tiling :: "vae \<Rightarrow> int \<Rightarrow> vae \<times> (error + unit)" where
  "enable_z_tiling s z =
     (let s1 = s\<lparr>use_z_tiling := (z > 1)\<rparr>;
          s2 = s1\<lparr>z_sample_size := z\<rparr>
      in (s2, if z mod 4 = 0 \<or> z = 1 then Inr () else Inl AssertionError))"

definition disable_z_tiling :: "vae \<Rightarrow> vae" where
  "disable_z_tiling s = s\<lparr>use_z_tiling := False\<rparr>"

definition enable_hw_tiling :: "vae \<Rightarrow> vae" where
  "enable_hw_tiling s = s\<lparr>use_hw_tiling := True\<rparr>"

definition disable_hw_tiling :: "vae \<Rightarrow> vae" where
  "disable_hw_tiling s = s\<lparr>use_hw_tiling := False\<rparr>"

text \<open>
  The objects a caller can build: constructed by \<^verbatim>\<open>__init__\<close>, then reconfigured by any
  sequence of the configuration methods; a rejected \<^verbatim>\<open>enable_z_tiling\<close> leaves its
  writes behind, so its state is reachable too.
\<close>

inductive reachable :: "vae \<Rightarrow> bool" where
  r_init: "reachable (init_vae ns d n nrm)"
| r_set_tiling_params: "reachable s \<Longrightarrow> reachable (set_tiling_params s n f)"
| r_enable_z_tiling: "reachable s \<Longrightarrow> reachable (fst (enable_z_tiling s z))"
| r_disable_z_tiling: "reachable s \<Longrightarrow> reachable (disable_z_tiling s)"
| r_enable_hw_tiling: "reachable s \<Longrightarrow> reachable (enable_hw_tiling s)"
| r_disable_hw_tiling: "reachable s \<Longrightarrow> reachable (disable_hw_tiling s)"

subsection \<open>Latent normalisation and the untiled transforms\<close>

text \<open>
  \<^verbatim>\<open>_normalize_latent_channels\<close> and \<^verbatim>\<open>_unnormalize_latent_channels\<close>, each an
  \<^verbatim>\<open>if isinstance(..) .. elif isinstance(..) ..\<close> chain on the normaliser, with the
  tests in the order and with the classes the source names.
\<close>

definition normalize_latent_channels :: "vae \<Rightarrow> tensor \<Rightarrow> error + tensor" where
  "normalize_latent_channels s z =
     (if latent_norm_out s = BatchNorm3d then
        (let c = int (extent AxC z)
         in cat AxC [bn3d_forward (nets s) (slice_ax AxC 0 (Some (c div 2)) z),
                     slice_ax AxC (c div 2) None z])
      else if latent_norm_out s = BatchNorm2d then Inl NotImplementedError
      else Inr z)"

definition unnormalize_latent_channels :: "vae \<Rightarrow> tensor \<Rightarrow> error + tensor" where
  "unnormalize_latent_channels s z =
     (if latent_norm_out s = BatchNorm3d then Inr (bn3d_unnormalize (nets s) z)
      else if latent_norm_out s = BatchNorm3d then Inl NotImplementedError
      else Inr z)"

text \<open>
  \<^verbatim>\<open>_encode\<close> and \<^verbatim>\<open>_decode\<close>, the transforms applied to one whole volume. A name
  cannot start with an underscore here: they are \<open>private_encode\<close> and \<open>private_decode\<close>,
  and the other methods drop their underscore.
\<close>

definition private_encode :: "vae \<Rightarrow> tensor \<Rightarrow> error + tensor" where
  "private_encode s x =
     (let h = encoder (nets s) x;
          moments = quant_conv (nets s) h
      in normalize_latent_channels s moments)"

definition private_decode ::
  "vae \<Rightarrow> tensor \<Rightarrow> int list \<Rightarrow> tensor option \<Rightarrow> error + tensor" where
  "private_decode s z target_shape timestep =
     bindE (unnormalize_latent_channels s z) (\<lambda>z1.
       let z2 = post_quant_conv (nets s) z1
       in if decoder_has_timestep (nets s)
          then Inr (decoder (nets s) z2 target_shape (Timestep timestep))
          else Inr (decoder (nets s) z2 target_shape No_timestep))"

subsection \<open>Spatial tiling\<close>

text \<open>
  Both spatial controllers build a grid of transformed tiles and then run the same
  double loop over it. That loop blends the tile above and the tile to the left into the
  current tile, in place, so every later read of \<^verbatim>\<open>rows[i - 1][j]\<close> or \<^verbatim>\<open>row[j - 1]\<close>
  sees a tile that has been blended already: the grid is the state of the loop. A list
  index out of range raises IndexError.
\<close>

definition nth_py :: "'a list \<Rightarrow> nat \<Rightarrow> error + 'a" where
  "nth_py xs i = (if i < length xs then Inr (xs ! i) else Inl IndexError)"

definition crop_hw :: "int \<Rightarrow> tensor \<Rightarrow> tensor" where
  "crop_hw row_limit t = slice_ax AxW 0 (Some row_limit) (slice_ax AxH 0 (Some row_limit) t)"

fun compose_row ::
  "int \<Rightarrow> int \<Rightarrow> nat \<Rightarrow> nat \<Rightarrow> tensor list list \<Rightarrow> tensor list
     \<Rightarrow> error + (tensor list list \<times> tensor list)" where
  "compose_row blend_extent row_limit i j g [] = Inr (g, [])"
| "compose_row blend_extent row_limit i j g (tile # rest) =
     bindE (if i > 0
            then bindE (bindE (nth_py g (i - 1)) (\<lambda>r. nth_py r j))
                   (\<lambda>a. blend_v a tile blend_extent)
            else Inr tile) (\<lambda>t1.
     bindE (if j > 0
            then bindE (bindE (nth_py g i) (\<lambda>r. nth_py r (j - 1)))
                   (\<lambda>a. blend_h a t1 blend_extent)
            else Inr t1) (\<lambda>t2.
     bindE (compose_row blend_extent row_limit i (j + 1) (g[i := (g ! i)[j := t2]]) rest)
       (\<lambda>(g', result_row). Inr (g', crop_hw row_limit t2 # result_row))))"

fun compose_rows ::
  "int \<Rightarrow> int \<Rightarrow> nat \<Rightarrow> tensor list list \<Rightarrow> tensor list list \<Rightarrow> error + tensor list" where
  "compose_rows blend_extent row_limit i g [] = Inr []"
| "compose_rows blend_extent row_limit i g (row # rest) =
     bindE (compose_row blend_extent row_limit i 0 g row) (\<lambda>(g', result_row).
     bindE (cat AxW result_row) (\<lambda>r.
     bindE (compose_rows blend_extent row_limit (i + 1) g' rest) (\<lambda>result_rows.
       Inr (r # result_rows))))"

text \<open>
  The first loop of \<^verbatim>\<open>_hw_tiled_encode\<close>: the tiles at the origins
  \<open>0, overlap_size, ..\<close> of height and width, each encoded and passed through
  \<open>quant_conv\<close>. The inner range is evaluated once per row.
\<close>

definition encode_tiles :: "vae \<Rightarrow> tensor \<Rightarrow> int \<Rightarrow> error + tensor list list" where
  "encode_tiles s x overlap_size =
     bindE (py_range (extent AxH x) overlap_size) (\<lambda>origins_h.
       mapE (\<lambda>i.
         bindE (py_range (extent AxW x) overlap_size) (\<lambda>origins_w.
           Inr (map (\<lambda>j.
             quant_conv (nets s) (encoder (nets s)
               (slice_ax AxW (int j) (Some (int j + tile_sample_min_size s))
                 (slice_ax AxH (int i) (Some (int i + tile_sample_min_size s)) x))))
             origins_w)))
         origins_h)"

definition hw_tiled_encode :: "vae \<Rightarrow> tensor \<Rightarrow> error + tensor" where
  "hw_tiled_encode s x =
     (let overlap_size =
            py_int (real_of_int (tile_sample_min_size s) * (1 - tile_overlap_factor s));
          blend_extent =
            py_int (real_of_int (tile_latent_min_size s) * tile_overlap_factor s);
          row_limit = tile_latent_min_size s - blend_extent
      in bindE (encode_tiles s x overlap_size) (\<lambda>rows.
         bindE (compose_rows blend_extent row_limit 0 rows rows) (\<lambda>result_rows.
           cat AxH result_rows)))"

text \<open>
  The first loop of \<^verbatim>\<open>_hw_tiled_decode\<close>; every tile is decoded with the tile target
  shape and with the timestep passed by keyword.
\<close>

definition decode_tiles ::
  "vae \<Rightarrow> tensor \<Rightarrow> int \<Rightarrow> int list \<Rightarrow> tensor option \<Rightarrow> error + tensor list list" where
  "decode_tiles s z overlap_size tile_target_shape timestep =
     bindE (py_range (extent AxH z) overlap_size) (\<lambda>origins_h.
       mapE (\<lambda>i.
         bindE (py_range (extent AxW z) overlap_size) (\<lambda>origins_w.
           Inr (map (\<lambda>j.
             decoder (nets s)
               (post_quant_conv (nets s)
                 (slice_ax AxW (int j) (Some (int j + tile_latent_min_size s))
                   (slice_ax AxH (int i) (Some (int i + tile_latent_min_size s)) z)))
               tile_target_shape (Timestep timestep))
             origins_w)))
         origins_h)"

definition hw_tiled_decode ::
  "vae \<Rightarrow> tensor \<Rightarrow> int list \<Rightarrow> tensor option \<Rightarrow> error + tensor" where
  "hw_tiled_decode s z target_shape timestep =
     (let overlap_size =
            py_int (real_of_int (tile_latent_min_size s) * (1 - tile_overlap_factor s));
          blend_extent =
            py_int (real_of_int (tile_sample_min_size s) * tile_overlap_factor s);
          row_limit = tile_sample_min_size s - blend_extent;
          tile_target_shape =
            take 3 target_shape @ [tile_sample_min_size s, tile_sample_min_size s]
      in bindE (decode_tiles s z overlap_size tile_target_shape timestep) (\<lambda>rows.
         bindE (compose_rows blend_extent row_limit 0 rows rows) (\<lambda>result_rows.
           cat AxH result_rows)))"

subsection \<open>Temporal tiling and the entry points\<close>

text \<open>
  \<open>encode\<close> and \<open>decode\<close> hand each volume or segment to one of the four transforms
  above. To say which one is invoked, and with which arguments, the entry points keep a
  log of these delegations: the callee, the shape of the tensor it is given and, for the
  decoders, the target shape it is given.
\<close>

datatype call =
    Call_hw_tiled_encode idx
  | Call_encode idx
  | Call_hw_tiled_decode idx "int list"
  | Call_decode idx "int list"

type_synonym 'a traced = "call list \<times> (error + 'a)"

definition bindT :: "'a traced \<Rightarrow> ('a \<Rightarrow> 'b traced) \<Rightarrow> 'b traced" where
  "bindT m f =
     (case m of
        (l, Inl e) \<Rightarrow> (l, Inl e)
      | (l, Inr x) \<Rightarrow> (case f x of (l', r) \<Rightarrow> (l @ l', r)))"

definition liftT :: "error + 'a \<Rightarrow> 'a traced" where
  "liftT r = ([], r)"

definition invoke :: "call \<Rightarrow> error + 'a \<Rightarrow> 'a traced" where
  "invoke c r = ([c], r)"

text \<open>\<^verbatim>\<open>xs[i] = v\<close> on a list copy: IndexError when \<open>i\<close> is not an index of \<open>xs\<close>.\<close>

definition py_list_set :: "'a list \<Rightarrow> nat \<Rightarrow> 'a \<Rightarrow> error + 'a list" where
  "py_list_set xs i v = (if i < length xs then Inr (xs[i := v]) else Inl IndexError)"

text \<open>
  The second loop of both temporal paths: segment \<open>i > 0\<close> is blended, in place, against
  \<^verbatim>\<open>row[i - 1]\<close> and cropped to \<open>t_limit\<close> frames; segment 0 is cropped to \<open>t_limit + 1\<close>.
\<close>

fun compose_segments ::
  "int \<Rightarrow> int \<Rightarrow> nat \<Rightarrow> tensor list \<Rightarrow> tensor list \<Rightarrow> error + tensor list" where
  "compose_segments blend_extent t_limit i g [] = Inr []"
| "compose_segments blend_extent t_limit i g (tile # rest) =
     (if i > 0 then
        bindE (nth_py g (i - 1)) (\<lambda>a.
        bindE (blend_z a tile blend_extent) (\<lambda>t.
        bindE (compose_segments blend_extent t_limit (i + 1) (g[i := t]) rest) (\<lambda>result_row.
          Inr (slice_ax AxT 0 (Some t_limit) t # result_row))))
      else
        bindE (compose_segments blend_extent t_limit (i + 1) g rest) (\<lambda>result_row.
          Inr (slice_ax AxT 0 (Some (t_limit + 1)) tile # result_row)))"

text \<open>
  The body of the first loop of the temporal encode path hands its window to the spatial
  controller or to \<^verbatim>\<open>_encode\<close>; the loop runs over the window origins.
\<close>

definition encode_tile :: "vae \<Rightarrow> tensor \<Rightarrow> tensor traced" where
  "encode_tile s tile =
     (if use_hw_tiling s
      then invoke (Call_hw_tiled_encode (shape tile)) (hw_tiled_encode s tile)
      else invoke (Call_encode (shape tile)) (private_encode s tile))"

fun encode_segments :: "vae \<Rightarrow> tensor \<Rightarrow> int \<Rightarrow> nat list \<Rightarrow> tensor list traced" where
  "encode_segments s z tile_sample_min_tsize [] = ([], Inr [])"
| "encode_segments s z tile_sample_min_tsize (i # origins) =
     (let tile = slice_ax AxT (int i) (Some (int i + tile_sample_min_tsize + 1)) z
      in bindT (encode_tile s tile) (\<lambda>tile1.
         bindT (encode_segments s z tile_sample_min_tsize origins) (\<lambda>row.
           ([], Inr ((if i > 0 then slice_ax AxT 1 None tile1 else tile1) # row)))))"

definition encode_z_tiled :: "vae \<Rightarrow> tensor \<Rightarrow> tensor traced" where
  "encode_z_tiled s z =
     (let tile_latent_min_tsize = z_sample_size s;
          tile_sample_min_tsize = tile_latent_min_tsize * 8;
          tile_overlap_factor = 0.25;
          overlap_size = py_int (real_of_int tile_sample_min_tsize * (1 - tile_overlap_factor));
          blend_extent = py_int (real_of_int tile_latent_min_tsize * tile_overlap_factor);
          t_limit = tile_latent_min_tsize - blend_extent
      in bindT (liftT (py_range (extent AxT z) overlap_size)) (\<lambda>origins.
         bindT (encode_segments s z tile_sample_min_tsize origins) (\<lambda>row.
         liftT (bindE (compose_segments blend_extent t_limit 0 row row) (\<lambda>result_row.
           cat AxT result_row)))))"

definition encode_untiled :: "vae \<Rightarrow> tensor \<Rightarrow> tensor traced" where
  "encode_untiled s z =
     (if use_hw_tiling s \<and> extent AxT z > 1
      then invoke (Call_hw_tiled_encode (shape z)) (hw_tiled_encode s z)
      else invoke (Call_encode (shape z)) (private_encode s z))"

text \<open>
  \<open>encode\<close> returns the moments; wrapping them into the posterior distribution and the
  output object (or a tuple, for \<^verbatim>\<open>return_dict = False\<close>) is left out. The chained
  comparison \<^verbatim>\<open>T > (z_sample_size + 1) > 1\<close> is the conjunction of its two halves.
\<close>

definition encode :: "vae \<Rightarrow> tensor \<Rightarrow> tensor traced" where
  "encode s z =
     (if use_z_tiling s \<and> int (extent AxT z) > z_sample_size s + 1 \<and> z_sample_size s + 1 > 1
      then encode_z_tiled s z
      else encode_untiled s z)"

text \<open>
  The first loop of the temporal decode path. \<open>target_shape_split\<close> is built for every
  segment as the source builds it; the two calls below it are given \<open>target_shape\<close>.
  Moving a decoded segment to the CPU in half precision leaves a tensor over the reals as
  it is.
\<close>

fun decode_segments ::
  "vae \<Rightarrow> tensor \<Rightarrow> int \<Rightarrow> int list \<Rightarrow> tensor option \<Rightarrow> nat list \<Rightarrow> tensor list traced" where
  "decode_segments s z tile_latent_min_tsize target_shape timestep [] = ([], Inr [])"
| "decode_segments s z tile_latent_min_tsize target_shape timestep (i # origins) =
     (let tile = slice_ax AxT (int i) (Some (int i + tile_latent_min_tsize + 1)) z
      in bindT (liftT (py_list_set target_shape 2 (int (extent AxT tile) * 8)))
           (\<lambda>target_shape_split.
         bindT (if use_hw_tiling s
                then invoke (Call_hw_tiled_decode (shape tile) target_shape)
                       (hw_tiled_decode s tile target_shape timestep)
                else invoke (Call_decode (shape tile) target_shape)
                       (private_decode s tile target_shape timestep)) (\<lambda>decoded.
         bindT (decode_segments s z tile_latent_min_tsize target_shape timestep origins)
           (\<lambda>row.
           ([], Inr ((if i > 0 then slice_ax AxT 1 None decoded else decoded) # row))))))"

definition decode_z_tiled ::
  "vae \<Rightarrow> tensor \<Rightarrow> int list \<Rightarrow> tensor option \<Rightarrow> tensor traced" where
  "decode_z_tiled s z target_shape timestep =
     (let tile_latent_min_tsize = z_sample_size s;
          tile_sample_min_tsize = tile_latent_min_tsize * 8;
          tile_overlap_factor = 0.25;
          overlap_size = py_int (real_of_int tile_latent_min_tsize * (1 - tile_overlap_factor));
          blend_extent = py_int (real_of_int tile_sample_min_tsize * tile_overlap_factor);
          t_limit = tile_sample_min_tsize - blend_extent
      in bindT (liftT (py_range (extent AxT z) overlap_size)) (\<lambda>origins.
         bindT (decode_segments s z tile_latent_min_tsize target_shape timestep origins)
           (\<lambda>row.
         liftT (bindE (compose_segments blend_extent t_limit 0 row row) (\<lambda>result_row.
           cat AxT result_row)))))"

definition decode_untiled ::
  "vae \<Rightarrow> tensor \<Rightarrow> int list \<Rightarrow> tensor option \<Rightarrow> tensor traced" where
  "decode_untiled s z target_shape timestep =
     (if use_hw_tiling s
      then invoke (Call_hw_tiled_decode (shape z) target_shape)
             (hw_tiled_decode s z target_shape timestep)
      else invoke (Call_decode (shape z) target_shape)
             (private_decode s z target_shape timestep))"

text \<open>
  \<open>decode\<close> returns the decoded sample (its wrapping is left out, as for \<open>encode\<close>);
  \<open>None\<close> is the default of the \<open>target_shape\<close> argument.
\<close>

definition decode ::
  "vae \<Rightarrow> tensor \<Rightarrow> int list option \<Rightarrow> tensor option \<Rightarrow> tensor traced" where
  "decode s z target_shape timestep =
     (case target_shape of
        None \<Rightarrow> ([], Inl AssertionError)
      | Some tsh \<Rightarrow>
          if use_z_tiling s \<and> int (extent AxT z) > z_sample_size s + 1
               \<and> z_sample_size s + 1 > 1
          then decode_z_tiled s z tsh timestep
          else decode_untiled s z tsh timestep)"

subsection \<open>The specification's wording of the composition\<close>

text \<open>
  The definitions of this subsection follow the specification, not the source; the
  theorems compare them with the embedding above.

  The derived geometry of the tiling policy.
\<close>

definition spec_strideFor :: "int \<Rightarrow> real \<Rightarrow> int" where
  "spec_strideFor tileSize overlapFactor = \<lfloor>real_of_int tileSize * (1 - overlapFactor)\<rfloor>"

definition spec_blendExtentFor :: "int \<Rightarrow> real \<Rightarrow> int" where
  "spec_blendExtentFor tileSize overlapFactor = \<lfloor>real_of_int tileSize * overlapFactor\<rfloor>"

text \<open>
  The blend operator's replacement for the element of \<open>b\<close> at index \<open>i\<close>, whose slice
  along the axis is \<open>k\<close>:
  \<open>a[extent(a, axis) - blendExtent + k] * (1 - k / blendExtent) + b[k] * (k / blendExtent)\<close>.
\<close>

definition spec_blend_slice :: "axis \<Rightarrow> tensor \<Rightarrow> tensor \<Rightarrow> int \<Rightarrow> idx \<Rightarrow> real" where
  "spec_blend_slice ax a b blendExtent i =
     (let k = coord ax i
      in elems a (bcast_idx ax (shape a)
                    (set_coord ax (nat (int (extent ax a) - blendExtent + int k)) i))
           * (1 - real k / real_of_int blendExtent)
         + elems b i * (real k / real_of_int blendExtent))"

text \<open>A pure concatenation of cropped tiles: columns within a row, then the rows.\<close>

definition spec_concat_tiles :: "int \<Rightarrow> tensor list list \<Rightarrow> error + tensor" where
  "spec_concat_tiles rowLimit rows =
     bindE (mapE (\<lambda>row. cat AxW (map (crop_hw rowLimit) row)) rows) (\<lambda>result_rows.
       cat AxH result_rows)"

text \<open>
  The temporal encode direction: origins stepping by the stride, windows of
  \<open>sampleTimeTileSize + 1\<close> frames (as far as the volume has them), every segment after
  the first without its leading frame, each of those blended against the segment before
  it and cropped to \<open>timeLimit\<close> frames, the first cropped to \<open>timeLimit + 1\<close>, and all
  of them concatenated along time. The segment before is taken as it stands after its own
  blend.
\<close>

definition spec_origins :: "nat \<Rightarrow> int \<Rightarrow> nat list" where
  "spec_origins n stride = filter (\<lambda>origin. origin < n) (map (\<lambda>k. k * nat stride) [0 ..< n])"

definition spec_window :: "tensor \<Rightarrow> int \<Rightarrow> nat \<Rightarrow> tensor" where
  "spec_window z len origin = slice_ax AxT (int origin) (Some (int origin + len)) z"

definition spec_drop_leading_frame :: "tensor \<Rightarrow> tensor" where
  "spec_drop_leading_frame t = slice_ax AxT 1 None t"

definition spec_crop_time :: "int \<Rightarrow> tensor \<Rightarrow> tensor" where
  "spec_crop_time limit t = slice_ax AxT 0 (Some limit) t"

fun mapT :: "('a \<Rightarrow> 'b traced) \<Rightarrow> 'a list \<Rightarrow> 'b list traced" where
  "mapT f [] = ([], Inr [])"
| "mapT f (x # xs) = bindT (f x) (\<lambda>y. bindT (mapT f xs) (\<lambda>ys. ([], Inr (y # ys))))"

fun spec_blend_chain :: "int \<Rightarrow> tensor \<Rightarrow> tensor list \<Rightarrow> error + tensor list" where
  "spec_blend_chain blendExtent previous [] = Inr []"
| "spec_blend_chain blendExtent previous (segment # segments) =
     bindE (blend_z previous segment blendExtent) (\<lambda>blended.
     bindE (spec_blend_chain blendExtent blended segments) (\<lambda>rest.
       Inr (blended # rest)))"

definition spec_encode_z_tiled :: "vae \<Rightarrow> tensor \<Rightarrow> tensor traced" where
  "spec_encode_z_tiled s z =
     (let sampleTimeTileSize = z_sample_size s * 8;
          stride = spec_strideFor sampleTimeTileSize 0.25;
          blendExtent = spec_blendExtentFor (z_sample_size s) 0.25;
          timeLimit = z_sample_size s - blendExtent
      in bindT (mapT (\<lambda>origin. encode_tile s (spec_window z (sampleTimeTileSize + 1) origin))
                  (spec_origins (extent AxT z) stride)) (\<lambda>segments.
         liftT (case segments of
             [] \<Rightarrow> cat AxT []
           | first # others \<Rightarrow>
               bindE (spec_blend_chain blendExtent first
                        (map spec_drop_leading_frame others)) (\<lambda>blended.
                 cat AxT (spec_crop_time (timeLimit + 1) first
                            # map (spec_crop_time timeLimit) blended)))))"

subsection \<open>Concrete objects for the examples\<close>

text \<open>
  Stand-in networks that return a copy of their input, a tensor whose elements are all
  \<open>v\<close>, and
  three objects: a fresh one, one with temporal tiling of size 4, one with spatial
  tiling only.
\<close>

definition example_nets :: networks where
  "example_nets =
     \<lparr>encoder = (\<lambda>x. x),
      decoder = (\<lambda>z target_shape ts. z),
      quant_conv = (\<lambda>x. x),
      post_quant_conv = (\<lambda>x. x),
      bn3d_forward = (\<lambda>x. x),
      bn3d_unnormalize = (\<lambda>x. x),
      decoder_has_timestep = False\<rparr>"

definition const_tensor :: "idx \<Rightarrow> real \<Rightarrow> tensor" where
  "const_tensor sh v = \<lparr>shape = sh, elems = (\<lambda>i. v)\<rparr>"

definition example_vae :: vae where
  "example_vae = init_vae example_nets 3 512 False"

definition example_vae_z4 :: vae where
  "example_vae_z4 = fst (enable_z_tiling example_vae 4)"

definition example_vae_hw :: vae where
  "example_vae_hw = enable_hw_tiling example_vae"

section \<open>Properties\<close>

subsection \<open>The error monads\<close>

lemma bindE_Inr [simp]: "bindE (Inr x) f = f x"
  by (simp add: bindE_def)

lemma bindE_Inl [simp]: "bindE (Inl e) f = Inl e"
  by (simp add: bindE_def)

lemma bindE_assoc: "bindE (bindE m f) g = bindE m (\<lambda>x. bindE (f x) g)"
  by (cases m) simp_all

lemma bindE_return [simp]: "bindE m Inr = m"
  by (cases m) simp_all


lemma bindT_return_left [simp]: "bindT ([], Inr x) f = f x"
  by (simp add: bindT_def split: prod.splits)

lemma bindT_error [simp]: "bindT (l, Inl e) f = (l, Inl e)"
  by (simp add: bindT_def)

lemma bindT_assoc: "bindT (bindT m f) g = bindT m (\<lambda>x. bindT (f x) g)"
  by (cases m rule: prod.exhaust; cases "snd m")
     (auto simp: bindT_def split: prod.splits sum.splits)

lemma bindT_cong_result:
  "(\<And>l x. m = (l, Inr x) \<Longrightarrow> f x = g x) \<Longrightarrow> bindT m f = bindT m g"
  by (cases m rule: prod.exhaust; cases "snd m") (auto simp: bindT_def)

lemma liftT_bindE: "bindT (liftT m) (\<lambda>x. liftT (f x)) = liftT (bindE m f)"
  by (cases m) (simp_all add: liftT_def)

lemma mapT_length: "mapT f xs = (l, Inr ys) \<Longrightarrow> length ys = length xs"
proof (induction xs arbitrary: l ys)
  case Nil
  then show ?case by simp
next
  case (Cons x xs)
  obtain l1 r1 where fx: "f x = (l1, r1)" by (cases "f x")
  obtain l2 r2 where rest: "mapT f xs = (l2, r2)" by (cases "mapT f xs")
  from Cons.prems fx rest obtain y ys' where "r1 = Inr y" "r2 = Inr ys'" "ys = y # ys'"
    by (cases r1; cases r2) (auto simp: bindT_def)
  with Cons.IH rest show ?case by simp
qed


subsection \<open>Coordinates\<close>

lemma coord_set_coord_same [simp]: "coord ax (set_coord ax v i) = v"
  by (cases i rule: prod_cases5; cases ax) simp_all

lemma coord_set_coord_other: "d \<noteq> ax \<Longrightarrow> coord d (set_coord ax v i) = coord d i"
  by (cases i rule: prod_cases5; cases ax; cases d) simp_all

lemma set_coord_coord [simp]: "set_coord ax (coord ax i) i = i"
  by (cases i rule: prod_cases5; cases ax) simp_all

lemma set_coord_twice [simp]: "set_coord ax v (set_coord ax u i) = set_coord ax v i"
  by (cases i rule: prod_cases5; cases ax) simp_all


subsection \<open>The blend loop in closed form\<close>

text \<open>
  After \<open>k\<close> rounds of the loop the slices below \<open>k\<close> hold the interpolation, computed
  from the slices of \<open>b\<close> as they were on entry, and the others are untouched.
\<close>

lemma blend_step_shape [simp]: "shape (blend_step ax a m z b) = shape b"
  by (simp add: blend_step_def)

lemma fold_blend_step:
  "fold (blend_step ax a m) [0 ..< k] b =
     b\<lparr>elems := (\<lambda>i. if coord ax i < k then spec_blend_slice ax a b m i else elems b i)\<rparr>"
proof (induction k)
  case 0
  show ?case by simp
next
  case (Suc k)
  have "fold (blend_step ax a m) [0 ..< Suc k] b =
          blend_step ax a m k (fold (blend_step ax a m) [0 ..< k] b)"
    by simp
  also have "\<dots> = blend_step ax a m k
      (b\<lparr>elems := (\<lambda>i. if coord ax i < k then spec_blend_slice ax a b m i else elems b i)\<rparr>)"
    by (simp only: Suc.IH)
  also have "\<dots> =
      b\<lparr>elems := (\<lambda>i. if coord ax i < Suc k then spec_blend_slice ax a b m i else elems b i)\<rparr>"
    by (auto simp: blend_step_def spec_blend_slice_def Let_def fun_eq_iff less_Suc_eq algebra_simps)
  finally show ?case .
qed

lemma blend_on_unfold:
  "blend_on ax a b blend_extent =
     (if min (int (extent ax a)) (min (int (extent ax b)) blend_extent) \<le> 0 then Inr b
      else if \<not> bcast_ok ax (shape a) (shape b) then Inl RuntimeError
      else Inr (fold (blend_step ax a (min (int (extent ax a)) (min (int (extent ax b)) blend_extent)))
             [0 ..< nat (min (int (extent ax a)) (min (int (extent ax b)) blend_extent))] b))"
  by (simp only: blend_on_def Let_def)

lemma blend_on_closed_form:
  assumes m: "m = min (int (extent ax a)) (min (int (extent ax b)) blend_extent)"
    and ok: "0 < m \<Longrightarrow> bcast_ok ax (shape a) (shape b)"
  shows "blend_on ax a b blend_extent =
     Inr (b\<lparr>elems := (\<lambda>i. if int (coord ax i) < m then spec_blend_slice ax a b m i
                            else elems b i)\<rparr>)"
proof (cases "m \<le> 0")
  case True
  then have "(\<lambda>i. if int (coord ax i) < m then spec_blend_slice ax a b m i else elems b i) = elems b"
    by (auto simp: fun_eq_iff)
  moreover have "blend_on ax a b blend_extent = Inr b"
    using True unfolding blend_on_unfold m [symmetric] by simp
  ultimately show ?thesis by simp
next
  case False
  then have pos: "0 < m" by simp
  have lt: "\<And>i. (coord ax i < nat m) = (int (coord ax i) < m)"
    using pos by auto
  have "blend_on ax a b blend_extent = Inr (fold (blend_step ax a m) [0 ..< nat m] b)"
    using False ok [OF pos] unfolding blend_on_unfold m [symmetric] by simp
  then show ?thesis
    by (simp add: fold_blend_step lt)
qed

lemma blend_on_noop: "blend_extent \<le> 0 \<Longrightarrow> blend_on ax a b blend_extent = Inr b"
  unfolding blend_on_unfold by (simp add: min_def)

lemma blend_on_mismatch:
  "0 < min (int (extent ax a)) (min (int (extent ax b)) blend_extent) \<Longrightarrow>
   \<not> bcast_ok ax (shape a) (shape b) \<Longrightarrow> blend_on ax a b blend_extent = Inl RuntimeError"
  unfolding blend_on_unfold by (simp only: if_False if_True not_le [symmetric] not_False_eq_True)

subsection \<open>Composition without blending\<close>

text \<open>
  With a blend extent of at most 0 the double loop over the grid leaves every tile as
  it is; what remains is the crop and the two concatenations. The grid is rectangular,
  so the reads of the tile above and of the tile to the left stay inside it.
\<close>

lemma nth_py_in_range [simp]: "i < length xs \<Longrightarrow> nth_py xs i = Inr (xs ! i)"
  by (simp add: nth_py_def)

lemma compose_row_no_blend:
  assumes "e \<le> 0" and "i < length g" and "drop j (g ! i) = row"
    and "0 < i \<Longrightarrow> length (g ! (i - 1)) = length (g ! i)"
  shows "compose_row e rl i j g row = Inr (g, map (crop_hw rl) row)"
  using assms(3)
proof (induction row arbitrary: j)
  case Nil
  show ?case by simp
next
  case (Cons tile rest)
  from Cons.prems have j: "j < length (g ! i)"
    by (metis drop_all list.distinct(1) not_le)
  from Cons.prems j have tile: "g ! i ! j = tile" and rest: "drop (j + 1) (g ! i) = rest"
    by (simp_all add: Cons_nth_drop_Suc [symmetric])
  have above: "0 < i \<Longrightarrow> j < length (g ! (i - 1))" and above_row: "0 < i \<Longrightarrow> i - 1 < length g"
    using assms(2,4) j by simp_all
  have same: "g[i := (g ! i)[j := tile]] = g"
    using tile by (metis list_update_id)
  have v: "(if 0 < i
             then bindE (bindE (nth_py g (i - 1)) (\<lambda>r. nth_py r j)) (\<lambda>a. blend_v a tile e)
             else Inr tile) = Inr tile"
    using assms(1) above above_row by (simp add: blend_v_def blend_on_noop)
  have h: "(if 0 < j
             then bindE (bindE (nth_py g i) (\<lambda>r. nth_py r (j - 1))) (\<lambda>a. blend_h a tile e)
             else Inr tile) = Inr tile"
    using assms(1,2) j by (simp add: blend_h_def blend_on_noop)
  have "compose_row e rl i (j + 1) g rest = Inr (g, map (crop_hw rl) rest)"
    using rest by (rule Cons.IH)
  then show ?case
    by (simp add: v h same)
qed

lemma compose_rows_no_blend:
  assumes "e \<le> 0" and "drop i g = rows" and "\<forall>r \<in> set g. length r = n"
  shows "compose_rows e rl i g rows = mapE (\<lambda>row. cat AxW (map (crop_hw rl) row)) rows"
  using assms(2)
proof (induction rows arbitrary: i)
  case Nil
  show ?case by simp
next
  case (Cons row rest)
  from Cons.prems have i: "i < length g"
    by (metis drop_all list.distinct(1) not_le)
  from Cons.prems i have row: "g ! i = row" and rest: "drop (i + 1) g = rest"
    by (simp_all add: Cons_nth_drop_Suc [symmetric])
  have "0 < i \<Longrightarrow> length (g ! (i - 1)) = length (g ! i)"
    using assms(3) i by simp
  with assms(1) i row have "compose_row e rl i 0 g row = Inr (g, map (crop_hw rl) row)"
    by (intro compose_row_no_blend) simp_all
  moreover have "compose_rows e rl (i + 1) g rest
                   = mapE (\<lambda>row. cat AxW (map (crop_hw rl) row)) rest"
    using rest by (rule Cons.IH)
  ultimately show ?case by simp
qed

lemma mapE_rows_same_length:
  "mapE (\<lambda>i. bindE c (\<lambda>js. Inr (map (f i) js))) origins = Inr rows \<Longrightarrow>
   \<forall>r \<in> set rows. \<forall>js. c = Inr js \<longrightarrow> length r = length js"
proof (induction origins arbitrary: rows)
  case Nil
  then show ?case by simp
next
  case (Cons i origins)
  then show ?case
    by (cases c; cases "mapE (\<lambda>i. bindE c (\<lambda>js. Inr (map (f i) js))) origins") auto
qed

lemma grid_no_blend:
  assumes "e \<le> 0"
    and "mapE (\<lambda>i. bindE c (\<lambda>js. Inr (map (f i) js))) origins = Inr rows"
  shows "bindE (compose_rows e rl 0 rows rows) (cat AxH) = spec_concat_tiles rl rows"
proof -
  have "\<exists>n. \<forall>r \<in> set rows. length r = n"
  proof (cases c)
    case (Inl err)
    with assms(2) have "rows = []" by (cases origins) simp_all
    then show ?thesis by simp
  next
    case (Inr js)
    with mapE_rows_same_length [OF assms(2)] show ?thesis by blast
  qed
  then obtain n where "\<forall>r \<in> set rows. length r = n" ..
  with assms(1) have "compose_rows e rl 0 rows rows
      = mapE (\<lambda>row. cat AxW (map (crop_hw rl) row)) rows"
    by (intro compose_rows_no_blend [where n = n]) simp_all
  then show ?thesis by (simp add: spec_concat_tiles_def)
qed

lemma py_int_zero [simp]: "py_int 0 = 0"
  by (simp add: py_int_def)

lemma py_int_of_int [simp]: "py_int (real_of_int k) = k"
  by (simp add: py_int_def)

lemma hw_tiled_encode_no_overlap:
  assumes "tile_overlap_factor s = 0"
  shows "hw_tiled_encode s x =
     bindE (encode_tiles s x (tile_sample_min_size s)) (spec_concat_tiles (tile_latent_min_size s))"
proof (cases "encode_tiles s x (tile_sample_min_size s)")
  case (Inl err)
  with assms show ?thesis by (simp add: hw_tiled_encode_def)
next
  case (Inr rows)
  then obtain origins_h where
    "mapE (\<lambda>i. bindE (py_range (extent AxW x) (tile_sample_min_size s)) (\<lambda>origins_w.
            Inr (map (\<lambda>j. quant_conv (nets s) (encoder (nets s)
               (slice_ax AxW (int j) (Some (int j + tile_sample_min_size s))
                 (slice_ax AxH (int i) (Some (int i + tile_sample_min_size s)) x))))
             origins_w))) origins_h = Inr rows"
    by (cases "py_range (extent AxH x) (tile_sample_min_size s)") (simp_all add: encode_tiles_def)
  then have "bindE (compose_rows 0 (tile_latent_min_size s) 0 rows rows) (cat AxH)
               = spec_concat_tiles (tile_latent_min_size s) rows"
    by (intro grid_no_blend) simp_all
  with assms Inr show ?thesis by (simp add: hw_tiled_encode_def)
qed

lemma hw_tiled_decode_no_overlap:
  assumes "tile_overlap_factor s = 0"
  shows "hw_tiled_decode s z target_shape timestep =
     bindE (decode_tiles s z (tile_latent_min_size s)
              (take 3 target_shape @ [tile_sample_min_size s, tile_sample_min_size s]) timestep)
       (spec_concat_tiles (tile_sample_min_size s))"
proof (cases "decode_tiles s z (tile_latent_min_size s)
              (take 3 target_shape @ [tile_sample_min_size s, tile_sample_min_size s]) timestep")
  case (Inl err)
  with assms show ?thesis by (simp add: hw_tiled_decode_def)
next
  case (Inr rows)
  then obtain origins_h where
    "mapE (\<lambda>i. bindE (py_range (extent AxW z) (tile_latent_min_size s)) (\<lambda>origins_w.
            Inr (map (\<lambda>j. decoder (nets s)
               (post_quant_conv (nets s)
                 (slice_ax AxW (int j) (Some (int j + tile_latent_min_size s))
                   (slice_ax AxH (int i) (Some (int i + tile_latent_min_size s)) z)))
               (take 3 target_shape @ [tile_sample_min_size s, tile_sample_min_size s])
               (Timestep timestep))
             origins_w))) origins_h = Inr rows"
    by (cases "py_range (extent AxH z) (tile_latent_min_size s)") (simp_all add: decode_tiles_def)
  then have "bindE (compose_rows 0 (tile_sample_min_size s) 0 rows rows) (cat AxH)
               = spec_concat_tiles (tile_sample_min_size s) rows"
    by (intro grid_no_blend) simp_all
  with assms Inr show ?thesis by (simp add: hw_tiled_decode_def)
qed

subsection \<open>The temporal loops\<close>

text \<open>
  The geometry of the temporal encode path, the origins of \<^verbatim>\<open>range\<close>, and the two
  loops in terms of the specification's chain of blends.
\<close>

lemma stride_encode: "py_int (real_of_int (k * 8) * (1 - 0.25)) = 6 * k"
proof -
  have "real_of_int (k * 8) * (1 - 0.25) = real_of_int (6 * k)" by simp
  then show ?thesis by (simp only: py_int_of_int)
qed

lemma spec_stride_encode: "spec_strideFor (k * 8) 0.25 = 6 * k"
proof -
  have "real_of_int (k * 8) * (1 - 0.25) = real_of_int (6 * k)" by simp
  then show ?thesis by (simp only: spec_strideFor_def floor_of_int)
qed

lemma blend_extent_quarter: "0 \<le> k \<Longrightarrow> py_int (real_of_int k * 0.25) = spec_blendExtentFor k 0.25"
  by (simp add: py_int_def spec_blendExtentFor_def)

lemma filter_less_upt: "filter (\<lambda>k. k < c) [0 ..< n] = [0 ..< min c n]"
proof (induction n)
  case 0
  show ?case by simp
next
  case (Suc n)
  show ?case
  proof (cases "n < c")
    case True
    then have "min c n = n" "min c (Suc n) = Suc n" by simp_all
    with Suc True show ?thesis by simp
  next
    case False
    then have "min c n = c" "min c (Suc n) = c" by simp_all
    with Suc False show ?thesis by simp
  qed
qed

lemma py_range_spec_origins:
  assumes "0 < step"
  shows "py_range n step = Inr (spec_origins n step)"
proof -
  define d where "d = nat step"
  have d: "0 < d" using assms by (simp add: d_def)
  have lt: "(k * d < n) = (k < (n + d - 1) div d)" for k
  proof -
    have "(k < (n + d - 1) div d) = (Suc k \<le> (n + d - 1) div d)" by auto
    also have "\<dots> = (Suc k * d \<le> n + d - 1)"
      using d by (simp only: less_eq_div_iff_mult_less_eq)
    also have "\<dots> = (k * d < n)"
      using d by auto
    finally show ?thesis by simp
  qed
  have "\<not> n < (n + d - 1) div d"
  proof
    assume "n < (n + d - 1) div d"
    then have "n * d < n" by (simp only: lt)
    moreover have "n * 1 \<le> n * d" using d by (intro mult_le_mono2) simp
    ultimately show False by simp
  qed
  then have le: "(n + d - 1) div d \<le> n" by simp
  have "filter (\<lambda>origin. origin < n) (map (\<lambda>k. k * d) [0 ..< n])
          = map (\<lambda>k. k * d) (filter (\<lambda>k. k < (n + d - 1) div d) [0 ..< n])"
    by (simp add: filter_map comp_def lt)
  also have "\<dots> = map (\<lambda>k. k * d) [0 ..< (n + d - 1) div d]"
    using le by (simp add: filter_less_upt min_def)
  finally show ?thesis
    using assms by (simp add: py_range_def spec_origins_def d_def)
qed

lemma encode_segments_mapT:
  "encode_segments s z len origins =
     bindT (mapT (\<lambda>origin. encode_tile s (spec_window z (len + 1) origin)) origins) (\<lambda>outs.
       ([], Inr (map2 (\<lambda>i t. if i > 0 then spec_drop_leading_frame t else t) origins outs)))"
proof (induction origins)
  case Nil
  show ?case by simp
next
  case (Cons i origins)
  have w: "slice_ax AxT (int i) (Some (int i + len + 1)) z = spec_window z (len + 1) i"
    by (simp add: spec_window_def add.assoc)
  show ?case
    by (simp add: Cons.IH w Let_def bindT_assoc spec_drop_leading_frame_def [symmetric]
        cong: if_cong)
qed

lemma compose_segments_chain:
  assumes "i < length g" and "g ! i = previous" and "length g = Suc i + length rest"
  shows "compose_segments e lm (Suc i) g rest =
     bindE (spec_blend_chain e previous rest) (\<lambda>blended.
       Inr (map (spec_crop_time lm) blended))"
  using assms
proof (induction rest arbitrary: i g previous)
  case Nil
  show ?case by simp
next
  case (Cons tile rest)
  have prev: "nth_py g (Suc i - 1) = Inr previous"
    using Cons.prems(1,2) by simp
  show ?case
  proof (cases "blend_z previous tile e")
    case (Inl err)
    with prev show ?thesis by simp
  next
    case (Inr t)
    have "compose_segments e lm (Suc (Suc i)) (g[Suc i := t]) rest =
            bindE (spec_blend_chain e t rest) (\<lambda>blended. Inr (map (spec_crop_time lm) blended))"
      using Cons.prems by (intro Cons.IH) simp_all
    with prev Inr show ?thesis
      by (simp add: bindE_assoc spec_crop_time_def [symmetric])
  qed
qed

lemma compose_segments_first:
  "compose_segments e lm 0 (first # rest) (first # rest) =
     bindE (spec_blend_chain e first rest) (\<lambda>blended.
       Inr (spec_crop_time (lm + 1) first # map (spec_crop_time lm) blended))"
proof -
  have "compose_segments e lm (Suc 0) (first # rest) rest =
          bindE (spec_blend_chain e first rest) (\<lambda>blended. Inr (map (spec_crop_time lm) blended))"
    by (intro compose_segments_chain) simp_all
  then show ?thesis
    by (simp add: bindE_assoc spec_crop_time_def [symmetric])
qed

lemma spec_origins_first:
  assumes "0 < n"
  shows "\<exists>later. spec_origins n stride = 0 # later \<and> (0 < stride \<longrightarrow> (\<forall>i \<in> set later. 0 < i))"
proof -
  have "[0 ..< n] = 0 # [1 ..< n]"
    using assms by (simp add: upt_rec)
  then have "spec_origins n stride =
      0 # filter (\<lambda>origin. origin < n) (map (\<lambda>k. k * nat stride) [1 ..< n])"
    using assms by (simp add: spec_origins_def)
  moreover have "0 < stride \<longrightarrow>
     (\<forall>i \<in> set (filter (\<lambda>origin. origin < n) (map (\<lambda>k. k * nat stride) [1 ..< n])). 0 < i)"
    by auto
  ultimately show ?thesis by blast
qed

lemma map2_drop_later:
  "\<forall>i \<in> set later. 0 < i \<Longrightarrow> length others = length later \<Longrightarrow>
   map2 (\<lambda>i t. if i > 0 then spec_drop_leading_frame t else t) later others
     = map spec_drop_leading_frame others"
proof (induction later arbitrary: others)
  case Nil
  then show ?case by simp
next
  case (Cons i later)
  then show ?case by (cases others) simp_all
qed

lemma encode_z_tiled_refines:
  assumes z: "1 \<le> z_sample_size s" and n: "0 < extent AxT z"
  shows "encode_z_tiled s z = spec_encode_z_tiled s z"
proof -
  let ?k = "z_sample_size s"
  let ?e = "spec_blendExtentFor ?k 0.25"
  let ?lm = "?k - ?e"
  let ?segs = "mapT (\<lambda>origin. encode_tile s (spec_window z (?k * 8 + 1) origin))
                 (spec_origins (extent AxT z) (6 * ?k))"
  from z have stride: "0 < 6 * ?k" by simp
  obtain later where origins: "spec_origins (extent AxT z) (6 * ?k) = 0 # later"
    and later: "\<forall>i \<in> set later. 0 < i"
    using spec_origins_first [OF n, of "6 * ?k"] stride by blast
  have e: "py_int (real_of_int ?k * 0.25) = ?e"
    using z by (intro blend_extent_quarter) simp
  have "encode_z_tiled s z =
      bindT ?segs (\<lambda>outs.
        liftT (bindE (compose_segments ?e ?lm 0
                 (map2 (\<lambda>i t. if i > 0 then spec_drop_leading_frame t else t)
                    (spec_origins (extent AxT z) (6 * ?k)) outs)
                 (map2 (\<lambda>i t. if i > 0 then spec_drop_leading_frame t else t)
                    (spec_origins (extent AxT z) (6 * ?k)) outs))
               (cat AxT)))"
    unfolding encode_z_tiled_def Let_def stride_encode e
    by (simp add: py_range_spec_origins [OF stride] liftT_def encode_segments_mapT bindT_assoc
        del: mapT.simps)
  also have "\<dots> = bindT ?segs (\<lambda>segments.
         liftT (case segments of
             [] \<Rightarrow> cat AxT []
           | first # others \<Rightarrow>
               bindE (spec_blend_chain ?e first (map spec_drop_leading_frame others)) (\<lambda>blended.
                 cat AxT (spec_crop_time (?lm + 1) first # map (spec_crop_time ?lm) blended))))"
  proof (rule bindT_cong_result)
    fix l outs
    assume "?segs = (l, Inr outs)"
    then have "length outs = length (spec_origins (extent AxT z) (6 * ?k))"
      by (rule mapT_length)
    then have len: "length outs = Suc (length later)"
      by (simp add: origins)
    then obtain first others where outs: "outs = first # others" and others: "length others = length later"
      by (cases outs) simp_all
    have "map2 (\<lambda>i t. if i > 0 then spec_drop_leading_frame t else t)
            (spec_origins (extent AxT z) (6 * ?k)) outs
          = first # map spec_drop_leading_frame others"
      using map2_drop_later [OF later others] by (simp add: origins outs)
    then show "liftT (bindE (compose_segments ?e ?lm 0
                 (map2 (\<lambda>i t. if i > 0 then spec_drop_leading_frame t else t)
                    (spec_origins (extent AxT z) (6 * ?k)) outs)
                 (map2 (\<lambda>i t. if i > 0 then spec_drop_leading_frame t else t)
                    (spec_origins (extent AxT z) (6 * ?k)) outs))
               (cat AxT))
        = liftT (case outs of
             [] \<Rightarrow> cat AxT []
           | first # others \<Rightarrow>
               bindE (spec_blend_chain ?e first (map spec_drop_leading_frame others)) (\<lambda>blended.
                 cat AxT (spec_crop_time (?lm + 1) first # map (spec_crop_time ?lm) blended)))"
      by (simp only: outs list.case compose_segments_first bindE_assoc bindE_Inr)
  qed
  also have "\<dots> = spec_encode_z_tiled s z"
    unfolding spec_encode_z_tiled_def Let_def spec_stride_encode ..
  finally show ?thesis .
qed

text \<open>
  A window that starts inside the volume holds the requested number of frames, or the
  frames that are left when the volume ends before that.
\<close>

lemma spec_window_extent:
  assumes "origin \<le> extent AxT z" and "0 \<le> len"
  shows "extent AxT (spec_window z len origin) = min (nat len) (extent AxT z - origin)"
  using assms
  by (auto simp: spec_window_def slice_ax_def Let_def extent_def slice_bound_def min_def)

subsection \<open>The configuration methods\<close>

text \<open>
  Claim C7. \<open>enable_z_tiling z\<close> ends in an assertion error exactly when \<open>z\<close> is
  neither 1 nor a multiple of 4, and succeeds otherwise; it fails for 5 and succeeds for
  8. The error is the result of the configuration call itself: no encode or decode is
  involved.
\<close>

theorem enable_z_tiling_rejects:
  "(snd (enable_z_tiling s z) = Inl AssertionError) = (z \<noteq> 1 \<and> z mod 4 \<noteq> 0)
   \<and> (snd (enable_z_tiling s z) = Inr ()) = (z = 1 \<or> z mod 4 = 0)
   \<and> snd (enable_z_tiling s 5) = Inl AssertionError
   \<and> snd (enable_z_tiling s 8) = Inr ()"
  by (auto simp: enable_z_tiling_def Let_def)

text \<open>
  Claim C10. When \<open>z\<close> is neither 1 nor a multiple of 4, the call fails and the object
  it leaves behind has \<open>use_z_tiling = (z > 1)\<close> and \<open>z_sample_size = z\<close>: both fields
  are written before the check.
\<close>

theorem enable_z_tiling_writes_before_check:
  assumes "\<not> (z mod 4 = 0 \<or> z = 1)"
  shows "snd (enable_z_tiling s z) = Inl AssertionError
     \<and> use_z_tiling (fst (enable_z_tiling s z)) = (z > 1)
     \<and> z_sample_size (fst (enable_z_tiling s z)) = z"
  using assms by (simp add: enable_z_tiling_def Let_def)

text \<open>
  At \<open>z = 5\<close> on a fresh object: the call is rejected and the object, which had temporal
  tiling off and a tile size of 1, now has it on with tile size 5.
\<close>

theorem enable_z_tiling_writes_before_check_witness:
  "\<not> ((5::int) mod 4 = 0 \<or> (5::int) = 1)
   \<and> snd (enable_z_tiling example_vae 5) = Inl AssertionError
   \<and> use_z_tiling (fst (enable_z_tiling example_vae 5)) = ((5::int) > 1)
   \<and> z_sample_size (fst (enable_z_tiling example_vae 5)) = 5
   \<and> \<not> use_z_tiling example_vae
   \<and> z_sample_size example_vae = 1"
proof -
  have h: "\<not> ((5::int) mod 4 = 0 \<or> (5::int) = 1)" by simp
  from enable_z_tiling_writes_before_check [OF h, of example_vae] h show ?thesis
    by (simp add: example_vae_def init_vae_def set_tiling_params_def)
qed

subsection \<open>Latent normalisation\<close>

text \<open>
  Claim C3, evaluated on the object that \<^verbatim>\<open>__init__\<close> builds for \<open>dims = 2\<close> with
  latent normalisation on. Its normaliser is a \<^verbatim>\<open>BatchNorm2d\<close>;
  \<open>normalize_latent_channels\<close> raises NotImplementedError, but
  \<open>unnormalize_latent_channels\<close> returns its input: its second test names
  \<^verbatim>\<open>BatchNorm3d\<close> again, so the branch that raises is never taken.
\<close>

theorem unnormalize_batchnorm2d_returns_input:
  "latent_norm_out (init_vae ns 2 sample_size True) = BatchNorm2d
   \<and> normalize_latent_channels (init_vae ns 2 sample_size True) z = Inl NotImplementedError
   \<and> unnormalize_latent_channels (init_vae ns 2 sample_size True) z = Inr z"
  by (simp add: init_vae_def set_tiling_params_def normalize_latent_channels_def
      unnormalize_latent_channels_def)

subsection \<open>The blend operators\<close>

text \<open>
  Claim C4 as stated puts the caller's \<open>blendExtent\<close> into the source index and into
  the two weights. The operators first clamp the extent to the extents of \<open>a\<close> and \<open>b\<close>
  and use the clamped value in all three places. With two frames in \<open>a\<close> and \<open>b\<close> and
  \<open>blendExtent = 4\<close>, slice 1 of the result is \<open>a * 1/2 + b * 1/2\<close>, not
  \<open>a * 3/4 + b * 1/4\<close>. And when an extent of \<open>a\<close> off the blended axis is neither the
  one of \<open>b\<close> nor 1, the operator raises instead of returning.
\<close>

theorem blend_unclamped_extent_counterexample:
  "map_sum id (\<lambda>r. elems r (0, 0, 1, 0, 0))
     (blend_z (const_tensor (1, 1, 2, 1, 1) 1) (const_tensor (1, 1, 2, 1, 1) 0) 4) = Inr (1 / 2)
   \<and> spec_blend_slice AxT (const_tensor (1, 1, 2, 1, 1) 1) (const_tensor (1, 1, 2, 1, 1) 0) 4
        (0, 0, 1, 0, 0) = 3 / 4
   \<and> blend_z (const_tensor (1, 1, 2, 3, 1) 1) (const_tensor (1, 1, 2, 2, 1) 0) 4
        = Inl RuntimeError"
  by (simp add: blend_z_def blend_on_def Let_def const_tensor_def extent_def bcast_ok_def
      blend_step_def spec_blend_slice_def bcast_coord_def
      upt_rec [of _ "numeral _"] upt_rec [of _ "Suc _"])

text \<open>
  Claim C4, amended. Let \<open>m\<close> be the minimum of \<open>blendExtent\<close> and the extents of \<open>a\<close>
  and \<open>b\<close> along the blended axis, and let every other extent of \<open>a\<close> equal the one of
  \<open>b\<close> or be 1 (needed only when \<open>m > 0\<close>). Then each of \<open>blend_z\<close>, \<open>blend_v\<close>,
  \<open>blend_h\<close> returns \<open>b\<close> with, for each \<open>k < m\<close>, slice \<open>k\<close> replaced by
  \<open>a[extent(a) - m + k] * (1 - k / m) + b[k] * (k / m)\<close>, and every slice at or beyond
  \<open>m\<close> unchanged.
\<close>

theorem blend_operators_clamped:
  assumes "(ax, blend) \<in> {(AxT, blend_z), (AxH, blend_v), (AxW, blend_h)}"
    and "m = min (int (extent ax a)) (min (int (extent ax b)) blend_extent)"
    and "0 < m \<Longrightarrow> bcast_ok ax (shape a) (shape b)"
  shows "blend a b blend_extent =
     Inr (b\<lparr>elems := (\<lambda>i. if int (coord ax i) < m then spec_blend_slice ax a b m i
                            else elems b i)\<rparr>)"
proof -
  have "blend a b blend_extent = blend_on ax a b blend_extent"
    using assms(1) by (auto simp: blend_z_def blend_v_def blend_h_def)
  then show ?thesis
    using blend_on_closed_form [OF assms(2,3)] by simp
qed

text \<open>
  The clamped case from above: two frames each, \<open>blendExtent = 4\<close>, so \<open>m = 2\<close>.
\<close>

theorem blend_operators_clamped_witness:
  "(AxT, blend_z) \<in> {(AxT, blend_z), (AxH, blend_v), (AxW, blend_h)}
   \<and> (2::int) = min (int (extent AxT (const_tensor (1, 1, 2, 1, 1) 1)))
                  (min (int (extent AxT (const_tensor (1, 1, 2, 1, 1) 0))) 4)
   \<and> bcast_ok AxT (shape (const_tensor (1, 1, 2, 1, 1) 1)) (shape (const_tensor (1, 1, 2, 1, 1) 0))
   \<and> blend_z (const_tensor (1, 1, 2, 1, 1) 1) (const_tensor (1, 1, 2, 1, 1) 0) 4 =
       Inr ((const_tensor (1, 1, 2, 1, 1) 0)\<lparr>elems := (\<lambda>i. if int (coord AxT i) < 2
            then spec_blend_slice AxT (const_tensor (1, 1, 2, 1, 1) 1)
                   (const_tensor (1, 1, 2, 1, 1) 0) 2 i
            else elems (const_tensor (1, 1, 2, 1, 1) 0) i)\<rparr>)"
proof -
  have m: "(2::int) = min (int (extent AxT (const_tensor (1, 1, 2, 1, 1) 1)))
                  (min (int (extent AxT (const_tensor (1, 1, 2, 1, 1) 0))) 4)"
    by (simp add: extent_def const_tensor_def)
  have ok: "bcast_ok AxT (shape (const_tensor (1, 1, 2, 1, 1) 1))
              (shape (const_tensor (1, 1, 2, 1, 1) 0))"
    by (simp add: bcast_ok_def const_tensor_def)
  have mem: "(AxT, blend_z) \<in> {(AxT, blend_z), (AxH, blend_v), (AxW, blend_h)}"
    by simp
  from blend_operators_clamped [OF mem m ok] mem m ok show ?thesis
    by blast
qed



subsection \<open>The entry points\<close>

text \<open>
  Claim C8. \<open>decode\<close> without a target shape fails on its first statement: the result
  is the assertion error, and nothing has been delegated.
\<close>

theorem decode_requires_target_shape:
  "decode s z None timestep = ([], Inl AssertionError)"
  by (simp add: decode_def)

text \<open>
  In every reachable object temporal tiling is on only with a tile size above 1: the only
  method that turns it on stores the size it compared.
\<close>

lemma reachable_z_tiling_size: "reachable s \<Longrightarrow> use_z_tiling s \<Longrightarrow> 1 < z_sample_size s"
  by (induction rule: reachable.induct)
     (simp_all add: init_vae_def set_tiling_params_def enable_z_tiling_def Let_def
        disable_z_tiling_def enable_hw_tiling_def disable_hw_tiling_def)

text \<open>
  Claim C6. On a reachable object, \<open>encode\<close> and \<open>decode\<close> (given a target shape) run
  their temporally tiled branch if temporal tiling is on, the time extent of the volume
  exceeds \<open>z_sample_size + 1\<close> and \<open>z_sample_size > 1\<close>, and their other branch if not.
\<close>

theorem temporal_gate:
  assumes "reachable s"
  shows "encode s z =
           (if use_z_tiling s \<and> int (extent AxT z) > z_sample_size s + 1 \<and> z_sample_size s > 1
            then encode_z_tiled s z else encode_untiled s z)
       \<and> decode s z (Some target_shape) timestep =
           (if use_z_tiling s \<and> int (extent AxT z) > z_sample_size s + 1 \<and> z_sample_size s > 1
            then decode_z_tiled s z target_shape timestep
            else decode_untiled s z target_shape timestep)"
proof (cases "use_z_tiling s")
  case True
  with assms have "1 < z_sample_size s" by (rule reachable_z_tiling_size)
  with True show ?thesis by (simp add: encode_def decode_def)
next
  case False
  then show ?thesis by (simp add: encode_def decode_def)
qed

text \<open>
  With temporal tiling of size 4: 30 frames take the tiled branch, 5 frames do not.
\<close>

theorem temporal_gate_witness:
  "reachable example_vae_z4
   \<and> encode example_vae_z4 (const_tensor (1, 1, 30, 1, 1) 1)
       = encode_z_tiled example_vae_z4 (const_tensor (1, 1, 30, 1, 1) 1)
   \<and> encode example_vae_z4 (const_tensor (1, 1, 5, 1, 1) 1)
       = encode_untiled example_vae_z4 (const_tensor (1, 1, 5, 1, 1) 1)
   \<and> decode example_vae_z4 (const_tensor (1, 1, 30, 1, 1) 1) (Some [1, 1, 233, 1, 1]) None
       = decode_z_tiled example_vae_z4 (const_tensor (1, 1, 30, 1, 1) 1) [1, 1, 233, 1, 1] None"
proof -
  have r: "reachable example_vae_z4"
    unfolding example_vae_z4_def example_vae_def by (intro reachable.intros)
  have v: "use_z_tiling example_vae_z4" "z_sample_size example_vae_z4 = 4"
    by (simp_all add: example_vae_z4_def enable_z_tiling_def Let_def)
  show ?thesis
    using temporal_gate [OF r, of "const_tensor (1, 1, 30, 1, 1) 1" "[1, 1, 233, 1, 1]" None]
      temporal_gate [OF r, of "const_tensor (1, 1, 5, 1, 1) 1" "[1, 1, 233, 1, 1]" None] r
    by (simp add: v extent_def const_tensor_def)
qed



text \<open>
  Claim C1, evaluated on a latent of 10 frames with temporal tiling of size 4 and the
  target shape \<open>(1, 3, 73, 32, 32)\<close>. The segments hold 5, 5, 4 and 1 frames, so the
  per-segment target shapes would carry 40, 40, 32 and 8 in the time dimension. Each
  segment is decoded with the caller's target shape, time dimension 73: the override is
  built and not passed on.
\<close>

theorem decode_z_tiled_passes_caller_target_shape:
  "fst (decode example_vae_z4 (const_tensor (1, 1, 10, 1, 1) 0) (Some [1, 3, 73, 32, 32]) None) =
     [Call_decode (1, 1, 5, 1, 1) [1, 3, 73, 32, 32],
      Call_decode (1, 1, 5, 1, 1) [1, 3, 73, 32, 32],
      Call_decode (1, 1, 4, 1, 1) [1, 3, 73, 32, 32],
      Call_decode (1, 1, 1, 1, 1) [1, 3, 73, 32, 32]]"
  by (simp add: decode_def decode_z_tiled_def example_vae_z4_def example_vae_def
      enable_z_tiling_def init_vae_def set_tiling_params_def Let_def const_tensor_def extent_def
      py_int_def py_range_def liftT_def bindT_def invoke_def py_list_set_def
      upt_rec [of _ "numeral _"] upt_rec [of _ "Suc _"] slice_ax_def slice_bound_def
      private_decode_def unnormalize_latent_channels_def example_nets_def)

text \<open>
  Claim C2, evaluated on a volume of one frame with spatial tiling on and temporal
  tiling off. \<open>encode\<close> falls back to the plain transform; \<open>decode\<close> does not test the
  time extent and invokes the spatial controller.
\<close>

theorem decode_hw_tiling_single_frame:
  "fst (decode example_vae_hw (const_tensor (1, 1, 1, 2, 2) 0) (Some [1, 1, 1, 64, 64]) None) =
     [Call_hw_tiled_decode (1, 1, 1, 2, 2) [1, 1, 1, 64, 64]]
   \<and> fst (encode example_vae_hw (const_tensor (1, 1, 1, 2, 2) 0)) = [Call_encode (1, 1, 1, 2, 2)]"
  by (simp add: decode_def encode_def decode_untiled_def encode_untiled_def example_vae_hw_def
      example_vae_def enable_hw_tiling_def init_vae_def set_tiling_params_def invoke_def
      const_tensor_def extent_def)

end
